theory Spec2Isabelle
  imports Main
begin

section \<open>Values, exceptions and dictionary access\<close>

text \<open>
  The integration handles decoded JSON: the shipment records of the GraphQL
  shipment list, the track-and-trace response and the submitted options are
  Python values built from \<open>None\<close>, booleans, integers, strings, lists and
  dictionaries with string keys. A dictionary is kept as an association list;
  the first binding of a key is the one a lookup finds.
\<close>

datatype json =
    JNull
  | JBool bool
  | JNum int
  | JStr string
  | JArr "json list"
  | JObj "(string \<times> json) list"

text \<open>Python truthiness, as used by \<open>if x:\<close> and \<open>not x\<close>.\<close>

fun truthy :: "json \<Rightarrow> bool" where
  "truthy JNull = False"
| "truthy (JBool b) = b"
| "truthy (JNum n) = (n \<noteq> 0)"
| "truthy (JStr s) = (s \<noteq> [])"
| "truthy (JArr xs) = (xs \<noteq> [])"
| "truthy (JObj kvs) = (kvs \<noteq> [])"

text \<open>
  The exceptions that can leave the modelled code. \<open>RequestException\<close> stands
  for \<open>requests.exceptions.RequestException\<close> and its subclasses,
  \<open>UpdateFailed\<close> is the host's update-failure exception; the others are the
  Python built-ins raised by attribute access, indexing and membership tests
  on a value of the wrong shape. \<open>Invalid\<close> is the validation error of the
  options schema.
\<close>

datatype exn =
    RequestException
  | UpdateFailed
  | AttributeError
  | KeyError
  | TypeError
  | HomeAssistantError
  | Invalid

definition bindE :: "exn + 'a \<Rightarrow> ('a \<Rightarrow> exn + 'b) \<Rightarrow> exn + 'b" where
  "bindE r f = (case r of Inl e \<Rightarrow> Inl e | Inr v \<Rightarrow> f v)"

text \<open>\<open>d.get(k, default)\<close> on a dictionary.\<close>

definition dict_get :: "(string \<times> json) list \<Rightarrow> string \<Rightarrow> json \<Rightarrow> json" where
  "dict_get d k dflt = (case map_of d k of Some v \<Rightarrow> v | None \<Rightarrow> dflt)"

text \<open>
  \<open>x.get(k, default)\<close> on any value: only a dictionary has the method, every
  other value raises \<open>AttributeError\<close>.
\<close>

fun py_get :: "json \<Rightarrow> string \<Rightarrow> json \<Rightarrow> exn + json" where
  "py_get (JObj d) k dflt = Inr (dict_get d k dflt)"
| "py_get _ k dflt = Inl AttributeError"

text \<open>
  \<open>x.get(key, default)\<close> where the key is itself a run-time value (the
  shipment's barcode). The attribute is looked up before the call, so a
  receiver that is no dictionary raises \<open>AttributeError\<close>; a list or
  dictionary key is unhashable (\<open>TypeError\<close>); any other non-string key is
  hashable but equal to no string key, so the default is returned.
\<close>

fun py_get_by :: "json \<Rightarrow> json \<Rightarrow> json \<Rightarrow> exn + json" where
  "py_get_by (JObj d) (JStr k) dflt = Inr (dict_get d k dflt)"
| "py_get_by (JObj d) (JArr xs) dflt = Inl TypeError"
| "py_get_by (JObj d) (JObj kvs) dflt = Inl TypeError"
| "py_get_by (JObj d) _ dflt = Inr dflt"
| "py_get_by _ k dflt = Inl AttributeError"

text \<open>\<open>x[k]\<close> with a string literal \<open>k\<close>.\<close>

fun py_item :: "json \<Rightarrow> string \<Rightarrow> exn + json" where
  "py_item (JObj d) k = (case map_of d k of Some v \<Rightarrow> Inr v | None \<Rightarrow> Inl KeyError)"
| "py_item _ k = Inl TypeError"

text \<open>Substring test, for \<open>k in s\<close> on a string \<open>s\<close>.\<close>

fun is_substring :: "string \<Rightarrow> string \<Rightarrow> bool" where
  "is_substring p [] = (p = [])"
| "is_substring p (c # cs) = (take (length p) (c # cs) = p \<or> is_substring p cs)"

text \<open>
  \<open>k in x\<close> with a string literal \<open>k\<close>: key membership on a dictionary,
  element membership on a list, substring on a string, \<open>TypeError\<close> on a value
  that is not iterable.
\<close>

fun py_contains :: "string \<Rightarrow> json \<Rightarrow> exn + bool" where
  "py_contains k (JObj d) = Inr (map_of d k \<noteq> None)"
| "py_contains k (JArr xs) = Inr (JStr k \<in> set xs)"
| "py_contains k (JStr s) = Inr (is_substring k s)"
| "py_contains k _ = Inl TypeError"

section \<open>Package\<close>

text \<open>
  Modelled from the spec: the class \<open>Package\<close> of \<open>structs/package.py\<close> is not
  among the sources. The spec describes it as a flat record of identifier,
  display name, detail URL, shipment type, delivery status message, delivered
  flag, delivery timestamp, delivery-address type, and optional
  planned/expected delivery window fields. The field names are the keyword
  arguments of the two constructor calls in \<open>transform_shipment\<close>; the four
  optional fields are \<open>None\<close> when the call does not pass them.
\<close>

record package =
  key :: json
  name :: json
  url :: json
  shipment_type :: json
  status_message :: json
  delivered :: json
  delivery_date :: json
  delivery_address_type :: json
  planned_date :: json
  planned_from :: json
  planned_to :: json
  expected_datetime :: json

definition Package ::
  "json \<Rightarrow> json \<Rightarrow> json \<Rightarrow> json \<Rightarrow> json \<Rightarrow> json \<Rightarrow> json \<Rightarrow> json \<Rightarrow>
   json option \<Rightarrow> json option \<Rightarrow> json option \<Rightarrow> json option \<Rightarrow> package" where
  "Package k n u st sm dl dd dat pd pf pt ed =
     \<lparr> key = k, name = n, url = u, shipment_type = st, status_message = sm,
       delivered = dl, delivery_date = dd, delivery_address_type = dat,
       planned_date = (case pd of Some v \<Rightarrow> v | None \<Rightarrow> JNull),
       planned_from = (case pf of Some v \<Rightarrow> v | None \<Rightarrow> JNull),
       planned_to = (case pt of Some v \<Rightarrow> v | None \<Rightarrow> JNull),
       expected_datetime = (case ed of Some v \<Rightarrow> v | None \<Rightarrow> JNull) \<rparr>"

section \<open>Shipment reconciliation\<close>

text \<open>
  The values of the local variables \<open>planned_date\<close>, \<open>planned_from\<close>,
  \<open>planned_to\<close>, \<open>expected_datetime\<close> and \<open>status_message\<close> at the end of
  the \<open>if colli: ... else: ...\<close> statement of \<open>transform_shipment\<close>.
\<close>

record locals =
  l_planned_date :: json
  l_planned_from :: json
  l_planned_to :: json
  l_expected_datetime :: json
  l_status_message :: json

text \<open>
  Lines 87 to 92: the colli of the shipment's barcode in the track-and-trace
  response, \<open>None\<close> when the response is falsy or has no \<open>'colli'\<close>.
\<close>

definition find_colli :: "(string \<times> json) list \<Rightarrow> json \<Rightarrow> exn + json" where
  "find_colli shipment details =
     (if \<not> truthy details then Inr JNull
      else bindE (py_contains ''colli'' details) (\<lambda>has.
        if \<not> has then Inr JNull
        else bindE (py_item details ''colli'') (\<lambda>colli_map.
          case colli_map of
            JObj cm \<Rightarrow> bindE (py_item (JObj shipment) ''barcode'') (\<lambda>barcode.
                         py_get_by (JObj cm) barcode JNull)
          | _ \<Rightarrow> Inl AttributeError)))"

text \<open>Lines 104 to 107 and 113 to 116: the shipment's own delivery window.\<close>

definition fallback_window :: "(string \<times> json) list \<Rightarrow> json \<Rightarrow> locals" where
  "fallback_window shipment msg =
     \<lparr> l_planned_date = dict_get shipment ''deliveryWindowFrom'' JNull,
       l_planned_from = dict_get shipment ''deliveryWindowFrom'' JNull,
       l_planned_to = dict_get shipment ''deliveryWindowTo'' JNull,
       l_expected_datetime = JNull,
       l_status_message = msg \<rparr>"

text \<open>Line 110: the guarded status message.\<close>

definition guarded_status_message :: "json \<Rightarrow> json" where
  "guarded_status_message status_phase =
     (case status_phase of
        JObj sp \<Rightarrow> dict_get sp ''message'' (JStr ''Unknown'')
      | _ \<Rightarrow> JStr ''Unknown'')"

text \<open>Lines 94 to 117.\<close>

definition select_fields :: "(string \<times> json) list \<Rightarrow> json \<Rightarrow> exn + locals" where
  "select_fields shipment colli =
     (if truthy colli then
        bindE (py_get colli ''routeInformation'' JNull) (\<lambda>route_information.
        bindE
          (if truthy route_information then
             bindE (py_get route_information ''plannedDeliveryTime'' JNull) (\<lambda>pd.
             bindE (py_get route_information ''plannedDeliveryTimeWindow'' (JObj [])) (\<lambda>w1.
             bindE (py_get w1 ''startDateTime'' JNull) (\<lambda>pf.
             bindE (py_get route_information ''plannedDeliveryTimeWindow'' (JObj [])) (\<lambda>w2.
             bindE (py_get w2 ''endDateTime'' JNull) (\<lambda>pt.
             bindE (py_get route_information ''expectedDeliveryTime'' JNull) (\<lambda>ed.
             Inr \<lparr> l_planned_date = pd, l_planned_from = pf, l_planned_to = pt,
                   l_expected_datetime = ed, l_status_message = JNull \<rparr>))))))
           else Inr (fallback_window shipment JNull))
          (\<lambda>ls.
        bindE (py_get colli ''statusPhase'' JNull) (\<lambda>status_phase.
        Inr (ls\<lparr> l_status_message := guarded_status_message status_phase \<rparr>))))
      else Inr (fallback_window shipment (JStr ''Unknown'')))"

text \<open>
  Line 124, the argument \<open>status_message=\<close> of the second constructor call:
  \<open>colli.get('statusPhase', {}).get('message', "Unknown")\<close>.
\<close>

definition package_status_message :: "json \<Rightarrow> exn + json" where
  "package_status_message colli =
     bindE (py_get colli ''statusPhase'' (JObj [])) (\<lambda>sp.
       py_get sp ''message'' (JStr ''Unknown''))"

text \<open>
  The \<open>except requests.exceptions.RequestException\<close> clauses: a
  \<open>RequestException\<close> becomes \<open>UpdateFailed\<close>, every other exception passes.
\<close>

definition except_request :: "exn + 'a \<Rightarrow> exn + 'a" where
  "except_request r =
     (case r of Inl e \<Rightarrow> (if e = RequestException then Inl UpdateFailed else Inl e)
              | Inr v \<Rightarrow> Inr v)"

text \<open>
  \<open>transform_shipment\<close>. The track-and-trace client
  \<open>self.jouw_api.track_and_trace\<close> is the parameter \<open>tt\<close>: given the
  shipment key it returns the decoded response or raises. The second
  component of the result lists the keys \<open>tt\<close> was called with, in order.
\<close>

definition transform_shipment ::
  "(json \<Rightarrow> exn + json) \<Rightarrow> json \<Rightarrow> (exn + package) \<times> json list" where
  "transform_shipment tt shipment =
     (case shipment of
        JObj s \<Rightarrow>
          (if truthy (dict_get s ''delivered'' JNull) then
             (Inr (Package (dict_get s ''key'' JNull) (dict_get s ''title'' JNull)
                     (dict_get s ''detailsUrl'' JNull) (dict_get s ''shipmentType'' JNull)
                     (JStr ''Pakket is bezorgd'') (dict_get s ''delivered'' JNull)
                     (dict_get s ''deliveredTimeStamp'' JNull)
                     (dict_get s ''deliveryAddressType'' JNull)
                     None None None None), [])
           else
             (case py_item shipment ''key'' of
                Inl e \<Rightarrow> (except_request (Inl e), [])
              | Inr k \<Rightarrow>
                  (except_request
                    (bindE (tt k) (\<lambda>track_and_trace_details.
                     bindE (find_colli s track_and_trace_details) (\<lambda>colli.
                     bindE (select_fields s colli) (\<lambda>ls.
                     bindE (package_status_message colli) (\<lambda>msg.
                     Inr (Package (dict_get s ''key'' JNull) (dict_get s ''title'' JNull)
                            (dict_get s ''detailsUrl'' JNull) (dict_get s ''shipmentType'' JNull)
                            msg (dict_get s ''delivered'' JNull)
                            (dict_get s ''deliveredTimeStamp'' JNull)
                            (dict_get s ''deliveryAddressType'' JNull)
                            (Some (l_planned_date ls)) (Some (l_planned_from ls))
                            (Some (l_planned_to ls)) (Some (l_expected_datetime ls)))))))),
                   [k])))
      | _ \<Rightarrow> (Inl AttributeError, []))"

section \<open>The polling cycle\<close>

text \<open>
  Iterating a value in a comprehension: a list yields its elements, a
  dictionary its keys, a string its characters; any other value is not
  iterable.
\<close>

fun py_iter :: "json \<Rightarrow> exn + json list" where
  "py_iter (JArr xs) = Inr xs"
| "py_iter (JObj d) = Inr (map (\<lambda>kv. JStr (fst kv)) d)"
| "py_iter (JStr s) = Inr (map (\<lambda>c. JStr [c]) s)"
| "py_iter _ = Inl TypeError"

text \<open>\<open>shipments.get('trackedShipments', {}).get(which, [])\<close>, iterated.\<close>

definition shipment_list :: "json \<Rightarrow> string \<Rightarrow> exn + json list" where
  "shipment_list shipments which =
     bindE (py_get shipments ''trackedShipments'' (JObj [])) (\<lambda>tracked.
     bindE (py_get tracked which (JArr [])) py_iter)"

text \<open>
  \<open>asyncio.gather\<close> on the tasks of one batch. Every task is started; the
  awaiting coroutine receives the list of results in task order when all
  succeed, and otherwise the exception of the task that fails first in time.
  The order in which the tasks finish is not fixed by the program, so it is
  the parameter \<open>order\<close>, a list of task indices; tasks it does not name finish
  afterwards in task order.
\<close>

definition failure_at :: "(exn + 'a) list \<Rightarrow> nat \<Rightarrow> exn option" where
  "failure_at outs i =
     (if i < length outs then (case outs ! i of Inl e \<Rightarrow> Some e | Inr v \<Rightarrow> None) else None)"

definition success_of :: "exn + 'a \<Rightarrow> 'a option" where
  "success_of r = (case r of Inl e \<Rightarrow> None | Inr v \<Rightarrow> Some v)"

definition gather :: "nat list \<Rightarrow> (exn + 'a) list \<Rightarrow> exn + 'a list" where
  "gather order outs =
     (case List.map_filter (failure_at outs) (order @ [0..<length outs]) of
        e # es \<Rightarrow> Inl e
      | [] \<Rightarrow> Inr (List.map_filter success_of outs))"

text \<open>
  The outcomes of the tasks of one batch: \<open>transform_shipment\<close> applied to each
  shipment of the list comprehension.
\<close>

definition transform_all :: "(json \<Rightarrow> exn + json) \<Rightarrow> json list \<Rightarrow> (exn + package) list" where
  "transform_all tt batch = map (\<lambda>shipment. fst (transform_shipment tt shipment)) batch"

record coordinator_data =
  data_receiver :: "package list"
  data_sender :: "package list"

text \<open>
  \<open>_async_update_data\<close>. The outcome of \<open>auth.check_and_refresh_token()\<close> and
  of the shipment-list call \<open>self.graphq_api.shipments\<close> are the parameters
  \<open>auth\<close> and \<open>shipments_fetch\<close>; \<open>order_r\<close> and \<open>order_s\<close> are the finishing
  orders of the receiver and the sender batch. The sender batch is built only
  after the receiver batch has been gathered.
\<close>

definition async_update_data ::
  "exn + unit \<Rightarrow> exn + json \<Rightarrow> (json \<Rightarrow> exn + json) \<Rightarrow> nat list \<Rightarrow> nat list \<Rightarrow>
   exn + coordinator_data" where
  "async_update_data auth shipments_fetch tt order_r order_s =
     except_request
       (bindE auth (\<lambda>u.
        bindE shipments_fetch (\<lambda>shipments.
        bindE (shipment_list shipments ''receiverShipments'') (\<lambda>rs.
        bindE (gather order_r (transform_all tt rs)) (\<lambda>receiver.
        bindE (shipment_list shipments ''senderShipments'') (\<lambda>ss.
        bindE (gather order_s (transform_all tt ss)) (\<lambda>sender.
        Inr \<lparr> data_receiver = receiver, data_sender = sender \<rparr>)))))))"

text \<open>
  \<open>PostNLCoordinator.__init__\<close>: the name and the refresh interval in seconds
  handed to the host's coordinator base class. The argument is the options
  mapping of the config entry, which the constructor could reach through
  \<open>hass\<close>; the constructor does not read it.
\<close>

record coordinator =
  coordinator_name :: string
  update_interval :: nat

definition PostNLCoordinator_init :: "(string \<times> json) list \<Rightarrow> coordinator" where
  "PostNLCoordinator_init options = \<lparr> coordinator_name = ''PostNL'', update_interval = 90 \<rparr>"

section \<open>The sensor\<close>

text \<open>
  The fields of \<open>PostNLDelivery\<close> that \<open>handle_coordinator_data\<close> reads and
  writes: the two attribute lists, \<open>_state\<close> (\<open>None\<close> until the first call) and
  the \<open>receiver\<close> flag. \<open>vars(package)\<close> is the package's attribute dictionary,
  kept here as the package record.
\<close>

record sensor =
  attributes_enroute :: "package list"
  attributes_delivered :: "package list"
  state :: "nat option"
  receiver :: bool

definition append_package :: "package \<Rightarrow> sensor \<Rightarrow> sensor" where
  "append_package p self =
     (if truthy (delivered p)
      then self\<lparr> attributes_delivered := attributes_delivered self @ [p] \<rparr>
      else self\<lparr> attributes_enroute := attributes_enroute self @ [p] \<rparr>)"

definition handle_coordinator_data :: "coordinator_data \<Rightarrow> sensor \<Rightarrow> sensor" where
  "handle_coordinator_data data self =
     (let self1 = self\<lparr> attributes_delivered := [] \<rparr>;
          self2 = self1\<lparr> attributes_enroute := [] \<rparr>;
          coordinator_data = (if receiver self2 then data_receiver data else data_sender data);
          self3 = fold append_package coordinator_data self2
      in self3\<lparr> state := Some (length (attributes_enroute self3)) \<rparr>)"

section \<open>The options flow\<close>

text \<open>
  The validators of the voluptuous library used by the options schema.
  \<open>Coerce(int)\<close> calls \<open>int(v)\<close> and turns its \<open>ValueError\<close> or \<open>TypeError\<close>
  into \<open>Invalid\<close>; on a string Python parses an integer literal, which is the
  parameter \<open>int_of_str\<close>. \<open>Range(min=m)\<close> rejects a value below \<open>m\<close>.
  \<open>All(a, b)\<close> applies \<open>a\<close>, then \<open>b\<close> to its output.
\<close>

fun Coerce_int :: "(string \<Rightarrow> int option) \<Rightarrow> json \<Rightarrow> exn + int" where
  "Coerce_int int_of_str (JNum n) = Inr n"
| "Coerce_int int_of_str (JBool b) = Inr (if b then 1 else 0)"
| "Coerce_int int_of_str (JStr s) =
     (case int_of_str s of Some n \<Rightarrow> Inr n | None \<Rightarrow> Inl Invalid)"
| "Coerce_int int_of_str _ = Inl Invalid"

definition Range_min :: "int \<Rightarrow> int \<Rightarrow> exn + int" where
  "Range_min m v = (if v < m then Inl Invalid else Inr v)"

definition All2 :: "('a \<Rightarrow> exn + 'b) \<Rightarrow> ('b \<Rightarrow> exn + 'c) \<Rightarrow> 'a \<Rightarrow> exn + 'c" where
  "All2 a b v = bindE (a v) b"

text \<open>Line 21: \<open>vol.All(vol.Coerce(int), vol.Range(min=30))\<close>.\<close>

definition update_interval_validator :: "(string \<Rightarrow> int option) \<Rightarrow> json \<Rightarrow> exn + int" where
  "update_interval_validator int_of_str = All2 (Coerce_int int_of_str) (Range_min 30)"

text \<open>
  Lines 20 to 22: the schema with the one optional key \<open>'update_interval'\<close>.
  The input must be a dictionary with no other key; a missing key takes the
  default, which is validated like a submitted value.
\<close>

definition options_schema :: "(string \<Rightarrow> int option) \<Rightarrow> json \<Rightarrow> json \<Rightarrow> exn + json" where
  "options_schema int_of_str dflt user_input =
     (case user_input of
        JObj d \<Rightarrow>
          (if list_all (\<lambda>kv. fst kv = ''update_interval'') d
           then bindE (update_interval_validator int_of_str (dict_get d ''update_interval'' dflt))
                  (\<lambda>n. Inr (JObj [(''update_interval'', JNum n)]))
           else Inl Invalid)
      | _ \<Rightarrow> Inl Invalid)"

text \<open>
  \<open>async_step_init\<close>: with an input the entry is created from it as it is;
  without one the form is shown, its schema defaulting to the stored option
  or 90.
\<close>

datatype flow_result = CreateEntry json | ShowForm json

definition async_step_init :: "(string \<times> json) list \<Rightarrow> json option \<Rightarrow> flow_result" where
  "async_step_init options user_input =
     (case user_input of
        Some ui \<Rightarrow> CreateEntry ui
      | None \<Rightarrow> ShowForm (dict_get options ''update_interval'' (JNum 90)))"

text \<open>
  A submission of the form. The host's flow manager validates the submitted
  input against the schema of the form it last showed and calls the step
  with the validated input; an invalid input never reaches the step.
\<close>

definition submit_options ::
  "(string \<Rightarrow> int option) \<Rightarrow> (string \<times> json) list \<Rightarrow> json \<Rightarrow> exn + flow_result" where
  "submit_options int_of_str options user_input =
     (case async_step_init options None of
        ShowForm dflt \<Rightarrow>
          bindE (options_schema int_of_str dflt user_input) (\<lambda>validated.
            Inr (async_step_init options (Some validated)))
      | CreateEntry d \<Rightarrow> Inr (CreateEntry d))"

section \<open>Notions used to state the properties\<close>

text \<open>
  The field \<open>f\<close> of the route information's \<open>plannedDeliveryTimeWindow\<close>;
  \<open>None\<close> when the route information has no window or the window has no such
  field.
\<close>

definition window_field :: "(string \<times> json) list \<Rightarrow> string \<Rightarrow> json" where
  "window_field route_information f =
     (case map_of route_information ''plannedDeliveryTimeWindow'' of
        Some (JObj w) \<Rightarrow> dict_get w f JNull
      | _ \<Rightarrow> JNull)"

text \<open>
  A \<open>RequestException\<close> occurs during the detail fetch of a shipment of the
  batch: some call of the track-and-trace client made by \<open>transform_shipment\<close>
  for a shipment of the batch raises it.
\<close>

definition request_fails_in :: "(json \<Rightarrow> exn + json) \<Rightarrow> json list \<Rightarrow> bool" where
  "request_fails_in tt batch =
     list_ex (\<lambda>shipment.
        list_ex (\<lambda>k. tt k = Inl RequestException) (snd (transform_shipment tt shipment))) batch"

text \<open>Every failing task of the batch fails with the exception \<open>x\<close>.\<close>

definition fails_only_with :: "exn \<Rightarrow> (exn + 'a) list \<Rightarrow> bool" where
  "fails_only_with x outs = list_all (\<lambda>r. case r of Inl e \<Rightarrow> e = x | Inr v \<Rightarrow> True) outs"

section \<open>Example data\<close>

text \<open>
  Concrete shipments, track-and-trace responses and clients, coordinator data
  and sensors, used by the closed theorems below.
\<close>

definition ex_delivered :: "(string \<times> json) list" where
  "ex_delivered =
     [(''key'', JStr ''k0''), (''barcode'', JStr ''3S0''), (''delivered'', JBool True)]"

definition ex_enroute :: "(string \<times> json) list" where
  "ex_enroute =
     [(''key'', JStr ''k1''), (''barcode'', JStr ''3S1''), (''delivered'', JBool False),
      (''deliveryWindowFrom'', JStr ''09:00''), (''deliveryWindowTo'', JStr ''11:00'')]"

definition ex_no_barcode :: "(string \<times> json) list" where
  "ex_no_barcode = [(''key'', JStr ''k2''), (''delivered'', JBool False)]"

definition tt_request_exception :: "json \<Rightarrow> exn + json" where
  "tt_request_exception k = Inl RequestException"

definition tt_returning :: "json \<Rightarrow> json \<Rightarrow> exn + json" where
  "tt_returning details k = Inr details"

definition tt_mixed :: "json \<Rightarrow> exn + json" where
  "tt_mixed k =
     (if k = JStr ''k1'' then Inl RequestException else Inr (JObj [(''colli'', JObj [])]))"

definition response_for :: "json \<Rightarrow> json" where
  "response_for colli = JObj [(''colli'', JObj [(''3S1'', colli)])]"

definition ex_route_information :: "(string \<times> json) list" where
  "ex_route_information =
     [(''plannedDeliveryTime'', JStr ''10:00''),
      (''plannedDeliveryTimeWindow'',
         JObj [(''startDateTime'', JStr ''09:30''), (''endDateTime'', JStr ''10:30'')]),
      (''expectedDeliveryTime'', JStr ''10:05'')]"

definition ex_colli_route :: "(string \<times> json) list" where
  "ex_colli_route =
     [(''routeInformation'', JObj ex_route_information),
      (''statusPhase'', JObj [(''message'', JStr ''Onderweg'')])]"

definition ex_route_information_window_null :: "(string \<times> json) list" where
  "ex_route_information_window_null =
     [(''plannedDeliveryTime'', JStr ''10:00''), (''plannedDeliveryTimeWindow'', JNull)]"

definition ex_colli_window_null :: "(string \<times> json) list" where
  "ex_colli_window_null = [(''routeInformation'', JObj ex_route_information_window_null)]"

definition ex_route_information_window_absent :: "(string \<times> json) list" where
  "ex_route_information_window_absent = [(''plannedDeliveryTime'', JStr ''10:00'')]"

definition ex_colli_window_absent :: "(string \<times> json) list" where
  "ex_colli_window_absent = [(''routeInformation'', JObj ex_route_information_window_absent)]"

definition ex_colli_no_route_status_null :: "(string \<times> json) list" where
  "ex_colli_no_route_status_null = [(''routeInformation'', JNull), (''statusPhase'', JNull)]"

definition ex_colli_no_route :: "(string \<times> json) list" where
  "ex_colli_no_route =
     [(''routeInformation'', JNull),
      (''statusPhase'', JObj [(''message'', JStr ''Sortering'')])]"

definition ex_colli_status_null :: "(string \<times> json) list" where
  "ex_colli_status_null = [(''statusPhase'', JNull)]"

definition ex_shipments :: "json list \<Rightarrow> json list \<Rightarrow> json" where
  "ex_shipments rs ss =
     JObj [(''trackedShipments'',
            JObj [(''receiverShipments'', JArr rs), (''senderShipments'', JArr ss)])]"

definition ex_pkg_delivered :: package where
  "ex_pkg_delivered = Package (JStr ''k0'') JNull JNull JNull (JStr ''Pakket is bezorgd'')
     (JBool True) JNull JNull None None None None"

definition ex_pkg_enroute :: package where
  "ex_pkg_enroute = Package (JStr ''k1'') JNull JNull JNull (JStr ''Onderweg'')
     (JBool False) JNull JNull None None None None"

definition ex_data :: coordinator_data where
  "ex_data = \<lparr> data_receiver = [ex_pkg_enroute, ex_pkg_delivered, ex_pkg_enroute],
               data_sender = [ex_pkg_delivered] \<rparr>"

definition ex_sensor :: sensor where
  "ex_sensor = \<lparr> attributes_enroute = [ex_pkg_delivered], attributes_delivered = [],
                 state = None, receiver = True \<rparr>"

definition ex_int_of_str :: "string \<Rightarrow> int option" where
  "ex_int_of_str s = (if s = ''45'' then Some 45 else None)"

section \<open>Delivered shipments\<close>

text \<open>
  Claim C2. A shipment whose \<open>delivered\<close> flag is set (truthy) is turned into a
  Package without any call of the track-and-trace client, whatever that
  client would answer: the Package carries the shipment's flag as its
  \<open>delivered\<close> field, the fixed message \<open>Pakket is bezorgd\<close>, and \<open>None\<close> in the
  four planned/expected fields.
\<close>

theorem delivered_shipment_skips_lookup:
  assumes "truthy (dict_get s ''delivered'' JNull)"
  shows "snd (transform_shipment tt (JObj s)) = [] \<and>
         (\<exists>p. fst (transform_shipment tt (JObj s)) = Inr p \<and>
              delivered p = dict_get s ''delivered'' JNull \<and> truthy (delivered p) \<and>
              status_message p = JStr ''Pakket is bezorgd'' \<and>
              planned_date p = JNull \<and> planned_from p = JNull \<and>
              planned_to p = JNull \<and> expected_datetime p = JNull)"
  using assms by (simp add: transform_shipment_def Package_def)

theorem delivered_shipment_skips_lookup_witness:
  "truthy (dict_get ex_delivered ''delivered'' JNull) \<and>
   snd (transform_shipment tt_request_exception (JObj ex_delivered)) = [] \<and>
   (\<exists>p. fst (transform_shipment tt_request_exception (JObj ex_delivered)) = Inr p \<and>
        delivered p = JBool True \<and>
        status_message p = JStr ''Pakket is bezorgd'' \<and>
        planned_date p = JNull \<and> planned_from p = JNull \<and>
        planned_to p = JNull \<and> expected_datetime p = JNull)"
proof -
  have h: "truthy (dict_get ex_delivered ''delivered'' JNull)"
    by (simp add: ex_delivered_def dict_get_def)
  have d: "dict_get ex_delivered ''delivered'' JNull = JBool True"
    by (simp add: ex_delivered_def dict_get_def)
  show ?thesis
    using h delivered_shipment_skips_lookup [OF h, of tt_request_exception] by (auto simp: d)
qed

section \<open>Shipments without a colli match\<close>

text \<open>
  Claim C1. The claim asks that a non-delivered shipment with no colli match
  yields a Package with status message \<open>Unknown\<close> and the shipment's own
  window. The code sets \<open>status_message = "Unknown"\<close> for that case and then
  evaluates \<open>colli.get('statusPhase', {})\<close> on the \<open>None\<close> colli in the
  constructor call. The theorem evaluates the code on the three kinds of
  response the claim names (empty, no \<open>'colli'\<close> key, no entry for the
  barcode): each time the track-and-trace client is called once and
  \<open>AttributeError\<close> is raised instead of a Package being returned.
\<close>

theorem no_colli_match_raises:
  "transform_shipment (tt_returning (JObj [])) (JObj ex_enroute) =
     (Inl AttributeError, [JStr ''k1'']) \<and>
   transform_shipment (tt_returning (JObj [(''error'', JStr ''not found'')])) (JObj ex_enroute) =
     (Inl AttributeError, [JStr ''k1'']) \<and>
   transform_shipment (tt_returning (JObj [(''colli'', JObj [(''3S9'', JObj [])])]))
       (JObj ex_enroute) =
     (Inl AttributeError, [JStr ''k1''])"
  by (simp add: transform_shipment_def ex_enroute_def tt_returning_def dict_get_def bindE_def
        find_colli_def select_fields_def fallback_window_def package_status_message_def
        except_request_def)

section \<open>The status message\<close>

text \<open>
  Claim C3. The claim asks for the status message \<open>Unknown\<close> when the colli's
  status phase is present but not a mapping. Line 110 computes exactly that
  (\<open>guarded_status_message\<close>), but the constructor call does not use the
  result: it evaluates \<open>colli.get('statusPhase', {}).get(...)\<close> again without
  the guard. The theorem evaluates the code on a matching colli whose
  \<open>statusPhase\<close> is \<open>null\<close>: the guarded message is \<open>Unknown\<close>, and
  \<open>transform_shipment\<close> raises \<open>AttributeError\<close>.
\<close>

theorem status_phase_not_a_mapping_raises:
  "find_colli ex_enroute (response_for (JObj ex_colli_status_null)) =
     Inr (JObj ex_colli_status_null) \<and>
   guarded_status_message (dict_get ex_colli_status_null ''statusPhase'' JNull) =
     JStr ''Unknown'' \<and>
   transform_shipment (tt_returning (response_for (JObj ex_colli_status_null)))
       (JObj ex_enroute) =
     (Inl AttributeError, [JStr ''k1''])"
  by (simp add: transform_shipment_def ex_enroute_def tt_returning_def response_for_def
        ex_colli_status_null_def dict_get_def bindE_def find_colli_def select_fields_def
        guarded_status_message_def fallback_window_def package_status_message_def
        except_request_def)

section \<open>Planned and expected delivery fields\<close>

lemma package_status_message_ok:
  assumes "map_of c ''statusPhase'' = None \<or> (\<exists>sp. map_of c ''statusPhase'' = Some (JObj sp))"
  shows "\<exists>m. package_status_message (JObj c) = Inr m"
  using assms by (auto simp: package_status_message_def bindE_def dict_get_def)

lemma select_fields_route:
  assumes "map_of c ''routeInformation'' = Some (JObj ri)" and "ri \<noteq> []"
    and "map_of ri ''plannedDeliveryTimeWindow'' = None \<or>
         (\<exists>w. map_of ri ''plannedDeliveryTimeWindow'' = Some (JObj w))"
  shows "\<exists>ls. select_fields s (JObj c) = Inr ls \<and>
           l_planned_date ls = dict_get ri ''plannedDeliveryTime'' JNull \<and>
           l_planned_from ls = window_field ri ''startDateTime'' \<and>
           l_planned_to ls = window_field ri ''endDateTime'' \<and>
           l_expected_datetime ls = dict_get ri ''expectedDeliveryTime'' JNull"
proof -
  from assms(1) have c: "c \<noteq> []" by auto
  from assms(3) show ?thesis
  proof
    assume "map_of ri ''plannedDeliveryTimeWindow'' = None"
    with assms(1,2) c show ?thesis
      by (simp add: select_fields_def bindE_def dict_get_def window_field_def)
  next
    assume "\<exists>w. map_of ri ''plannedDeliveryTimeWindow'' = Some (JObj w)"
    then obtain w where "map_of ri ''plannedDeliveryTimeWindow'' = Some (JObj w)" ..
    with assms(1,2) c show ?thesis
      by (simp add: select_fields_def bindE_def dict_get_def window_field_def)
  qed
qed

lemma select_fields_no_route:
  assumes "\<not> truthy (dict_get c ''routeInformation'' JNull)"
  shows "\<exists>ls. select_fields s (JObj c) = Inr ls \<and>
           l_planned_date ls = dict_get s ''deliveryWindowFrom'' JNull \<and>
           l_planned_from ls = dict_get s ''deliveryWindowFrom'' JNull \<and>
           l_planned_to ls = dict_get s ''deliveryWindowTo'' JNull \<and>
           l_expected_datetime ls = JNull"
  using assms by (simp add: select_fields_def bindE_def fallback_window_def)

lemma transform_shipment_fetched:
  assumes "\<not> truthy (dict_get s ''delivered'' JNull)"
    and "map_of s ''key'' = Some k"
    and "tt k = Inr details"
    and "find_colli s details = Inr colli"
    and "select_fields s colli = Inr ls"
    and "package_status_message colli = Inr m"
  shows "\<exists>p. transform_shipment tt (JObj s) = (Inr p, [k]) \<and>
           status_message p = m \<and>
           planned_date p = l_planned_date ls \<and> planned_from p = l_planned_from ls \<and>
           planned_to p = l_planned_to ls \<and> expected_datetime p = l_expected_datetime ls"
  using assms by (simp add: transform_shipment_def bindE_def except_request_def Package_def)

text \<open>
  What the code does on detail data of the shape it expects. For a
  non-delivered shipment whose matching colli is a mapping, whose route
  information is a non-empty mapping with \<open>plannedDeliveryTimeWindow\<close> absent
  or a mapping, and whose status phase is absent or a mapping, the Package
  takes its planned and expected fields from the route information, each
  \<open>None\<close> when absent.
\<close>

lemma route_information_fields_used:
  assumes "\<not> truthy (dict_get s ''delivered'' JNull)"
    and "map_of s ''key'' = Some k"
    and "tt k = Inr details"
    and "find_colli s details = Inr (JObj c)"
    and "map_of c ''routeInformation'' = Some (JObj ri)" and "ri \<noteq> []"
    and "map_of ri ''plannedDeliveryTimeWindow'' = None \<or>
         (\<exists>w. map_of ri ''plannedDeliveryTimeWindow'' = Some (JObj w))"
    and "map_of c ''statusPhase'' = None \<or> (\<exists>sp. map_of c ''statusPhase'' = Some (JObj sp))"
  shows "\<exists>p. transform_shipment tt (JObj s) = (Inr p, [k]) \<and>
           planned_date p = dict_get ri ''plannedDeliveryTime'' JNull \<and>
           planned_from p = window_field ri ''startDateTime'' \<and>
           planned_to p = window_field ri ''endDateTime'' \<and>
           expected_datetime p = dict_get ri ''expectedDeliveryTime'' JNull"
proof -
  from select_fields_route [OF assms(5,6,7), of s] obtain ls where
    ls: "select_fields s (JObj c) = Inr ls"
        "l_planned_date ls = dict_get ri ''plannedDeliveryTime'' JNull"
        "l_planned_from ls = window_field ri ''startDateTime''"
        "l_planned_to ls = window_field ri ''endDateTime''"
        "l_expected_datetime ls = dict_get ri ''expectedDeliveryTime'' JNull"
    by blast
  from package_status_message_ok [OF assms(8)] obtain m where
    m: "package_status_message (JObj c) = Inr m" ..
  from transform_shipment_fetched [where tt = tt, OF assms(1,2,3,4) ls(1) m] ls(2-5)
  show ?thesis by auto
qed

lemma route_information_fields_used_example:
  "\<not> truthy (dict_get ex_enroute ''delivered'' JNull) \<and>
   find_colli ex_enroute (response_for (JObj ex_colli_route)) = Inr (JObj ex_colli_route) \<and>
   map_of ex_colli_route ''routeInformation'' = Some (JObj ex_route_information) \<and>
   (\<exists>p. transform_shipment (tt_returning (response_for (JObj ex_colli_route))) (JObj ex_enroute) =
          (Inr p, [JStr ''k1'']) \<and>
        planned_date p = JStr ''10:00'' \<and> planned_from p = JStr ''09:30'' \<and>
        planned_to p = JStr ''10:30'' \<and> expected_datetime p = JStr ''10:05'')"
proof -
  have h1: "\<not> truthy (dict_get ex_enroute ''delivered'' JNull)"
    by (simp add: ex_enroute_def dict_get_def)
  have h2: "map_of ex_enroute ''key'' = Some (JStr ''k1'')"
    by (simp add: ex_enroute_def)
  have h3: "tt_returning (response_for (JObj ex_colli_route)) (JStr ''k1'') =
              Inr (response_for (JObj ex_colli_route))"
    by (simp add: tt_returning_def)
  have h4: "find_colli ex_enroute (response_for (JObj ex_colli_route)) = Inr (JObj ex_colli_route)"
    by (simp add: find_colli_def response_for_def ex_enroute_def bindE_def dict_get_def)
  have h5: "map_of ex_colli_route ''routeInformation'' = Some (JObj ex_route_information)"
    by (simp add: ex_colli_route_def)
  have h6: "ex_route_information \<noteq> []"
    by (simp add: ex_route_information_def)
  have h7: "map_of ex_route_information ''plannedDeliveryTimeWindow'' = None \<or>
            (\<exists>w. map_of ex_route_information ''plannedDeliveryTimeWindow'' = Some (JObj w))"
    by (simp add: ex_route_information_def)
  have h8: "map_of ex_colli_route ''statusPhase'' = None \<or>
            (\<exists>sp. map_of ex_colli_route ''statusPhase'' = Some (JObj sp))"
    by (simp add: ex_colli_route_def)
  have v: "dict_get ex_route_information ''plannedDeliveryTime'' JNull = JStr ''10:00''"
    "window_field ex_route_information ''startDateTime'' = JStr ''09:30''"
    "window_field ex_route_information ''endDateTime'' = JStr ''10:30''"
    "dict_get ex_route_information ''expectedDeliveryTime'' JNull = JStr ''10:05''"
    by (simp_all add: ex_route_information_def dict_get_def window_field_def)
  from route_information_fields_used
         [where tt = "tt_returning (response_for (JObj ex_colli_route))", OF h1 h2 h3 h4 h5 h6 h7 h8]
  show ?thesis using h1 h4 h5 by (simp add: v)
qed

text \<open>
  Likewise for a matching colli that is a mapping with no route information
  (the key absent, or its value falsy) and whose status phase is absent or a
  mapping: the Package takes its planned fields from the shipment's own
  delivery window and its expected delivery time is \<open>None\<close>.
\<close>

lemma no_route_information_falls_back:
  assumes "\<not> truthy (dict_get s ''delivered'' JNull)"
    and "map_of s ''key'' = Some k"
    and "tt k = Inr details"
    and "find_colli s details = Inr (JObj c)"
    and "\<not> truthy (dict_get c ''routeInformation'' JNull)"
    and "map_of c ''statusPhase'' = None \<or> (\<exists>sp. map_of c ''statusPhase'' = Some (JObj sp))"
  shows "\<exists>p. transform_shipment tt (JObj s) = (Inr p, [k]) \<and>
           planned_date p = dict_get s ''deliveryWindowFrom'' JNull \<and>
           planned_from p = dict_get s ''deliveryWindowFrom'' JNull \<and>
           planned_to p = dict_get s ''deliveryWindowTo'' JNull \<and>
           expected_datetime p = JNull"
proof -
  from select_fields_no_route [OF assms(5), of s] obtain ls where
    ls: "select_fields s (JObj c) = Inr ls"
        "l_planned_date ls = dict_get s ''deliveryWindowFrom'' JNull"
        "l_planned_from ls = dict_get s ''deliveryWindowFrom'' JNull"
        "l_planned_to ls = dict_get s ''deliveryWindowTo'' JNull"
        "l_expected_datetime ls = JNull"
    by blast
  from package_status_message_ok [OF assms(6)] obtain m where
    m: "package_status_message (JObj c) = Inr m" ..
  from transform_shipment_fetched [where tt = tt, OF assms(1,2,3,4) ls(1) m] ls(2-5)
  show ?thesis by auto
qed

lemma no_route_information_falls_back_example:
  "\<not> truthy (dict_get ex_enroute ''delivered'' JNull) \<and>
   find_colli ex_enroute (response_for (JObj ex_colli_no_route)) = Inr (JObj ex_colli_no_route) \<and>
   \<not> truthy (dict_get ex_colli_no_route ''routeInformation'' JNull) \<and>
   (\<exists>p. transform_shipment (tt_returning (response_for (JObj ex_colli_no_route)))
            (JObj ex_enroute) = (Inr p, [JStr ''k1'']) \<and>
        planned_date p = JStr ''09:00'' \<and> planned_from p = JStr ''09:00'' \<and>
        planned_to p = JStr ''11:00'' \<and> expected_datetime p = JNull)"
proof -
  have h1: "\<not> truthy (dict_get ex_enroute ''delivered'' JNull)"
    by (simp add: ex_enroute_def dict_get_def)
  have h2: "map_of ex_enroute ''key'' = Some (JStr ''k1'')"
    by (simp add: ex_enroute_def)
  have h3: "tt_returning (response_for (JObj ex_colli_no_route)) (JStr ''k1'') =
              Inr (response_for (JObj ex_colli_no_route))"
    by (simp add: tt_returning_def)
  have h4: "find_colli ex_enroute (response_for (JObj ex_colli_no_route)) =
              Inr (JObj ex_colli_no_route)"
    by (simp add: find_colli_def response_for_def ex_enroute_def bindE_def dict_get_def)
  have h5: "\<not> truthy (dict_get ex_colli_no_route ''routeInformation'' JNull)"
    by (simp add: ex_colli_no_route_def dict_get_def)
  have h6: "map_of ex_colli_no_route ''statusPhase'' = None \<or>
            (\<exists>sp. map_of ex_colli_no_route ''statusPhase'' = Some (JObj sp))"
    by (simp add: ex_colli_no_route_def)
  have v: "dict_get ex_enroute ''deliveryWindowFrom'' JNull = JStr ''09:00''"
    "dict_get ex_enroute ''deliveryWindowTo'' JNull = JStr ''11:00''"
    by (simp_all add: ex_enroute_def dict_get_def)
  from no_route_information_falls_back
         [where tt = "tt_returning (response_for (JObj ex_colli_no_route))", OF h1 h2 h3 h4 h5 h6]
  show ?thesis using h1 h4 h5 by (simp add: v)
qed

text \<open>
  Claim C4. The claim asks that a non-delivered shipment whose matching colli
  carries route information yields a Package with the route information's
  planned and expected fields. The code reads the window through
  \<open>route_information.get("plannedDeliveryTimeWindow", {}).get(...)\<close>: the
  default \<open>{}\<close> makes an absent window give \<open>None\<close> for both window fields, but
  a window that is \<open>null\<close> is returned as \<open>None\<close> and \<open>.get\<close> is called on it. The
  theorem evaluates the code on two colli that differ only in that: with the
  window absent a Package with the route information's planned delivery time
  and \<open>None\<close> window fields is returned; with the window \<open>null\<close>
  \<open>AttributeError\<close> is raised and no Package is returned.
\<close>

theorem route_information_window_null_raises:
  "find_colli ex_enroute (response_for (JObj ex_colli_window_absent)) =
     Inr (JObj ex_colli_window_absent) \<and>
   fst (transform_shipment (tt_returning (response_for (JObj ex_colli_window_absent)))
         (JObj ex_enroute)) =
     Inr (Package (JStr ''k1'') JNull JNull JNull (JStr ''Unknown'') (JBool False) JNull JNull
            (Some (JStr ''10:00'')) (Some JNull) (Some JNull) (Some JNull)) \<and>
   find_colli ex_enroute (response_for (JObj ex_colli_window_null)) =
     Inr (JObj ex_colli_window_null) \<and>
   map_of ex_colli_window_null ''routeInformation'' =
     Some (JObj ex_route_information_window_null) \<and>
   truthy (JObj ex_route_information_window_null) \<and>
   transform_shipment (tt_returning (response_for (JObj ex_colli_window_null)))
       (JObj ex_enroute) =
     (Inl AttributeError, [JStr ''k1''])"
  by (simp add: transform_shipment_def ex_enroute_def tt_returning_def response_for_def
        ex_colli_window_null_def ex_route_information_window_null_def
        ex_colli_window_absent_def ex_route_information_window_absent_def
        dict_get_def bindE_def find_colli_def select_fields_def guarded_status_message_def
        package_status_message_def except_request_def Package_def)

text \<open>
  Claim C5. The claim asks that a non-delivered shipment whose matching colli
  carries no route information yields a Package with the shipment's own
  delivery window and no expected delivery time. Lines 102 to 107 select
  exactly those values, but the constructor call that follows evaluates
  \<open>colli.get('statusPhase', {}).get(...)\<close> without the guard of line 110. The
  theorem evaluates the code on a matching colli with no route information
  whose \<open>statusPhase\<close> is \<open>null\<close>: the fallback values are selected, and
  \<open>transform_shipment\<close> raises \<open>AttributeError\<close> instead of returning the
  Package.
\<close>

theorem no_route_information_status_null_raises:
  "find_colli ex_enroute (response_for (JObj ex_colli_no_route_status_null)) =
     Inr (JObj ex_colli_no_route_status_null) \<and>
   \<not> truthy (dict_get ex_colli_no_route_status_null ''routeInformation'' JNull) \<and>
   select_fields ex_enroute (JObj ex_colli_no_route_status_null) =
     Inr \<lparr> l_planned_date = JStr ''09:00'', l_planned_from = JStr ''09:00'',
           l_planned_to = JStr ''11:00'', l_expected_datetime = JNull,
           l_status_message = JStr ''Unknown'' \<rparr> \<and>
   transform_shipment (tt_returning (response_for (JObj ex_colli_no_route_status_null)))
       (JObj ex_enroute) =
     (Inl AttributeError, [JStr ''k1''])"
  by (simp add: transform_shipment_def ex_enroute_def tt_returning_def response_for_def
        ex_colli_no_route_status_null_def dict_get_def bindE_def find_colli_def
        select_fields_def fallback_window_def guarded_status_message_def
        package_status_message_def except_request_def)

section \<open>The sensor state and attributes\<close>

lemma fold_append_package:
  "fold append_package ps self =
     self\<lparr> attributes_enroute := attributes_enroute self @ filter (\<lambda>p. \<not> truthy (delivered p)) ps,
           attributes_delivered := attributes_delivered self @ filter (\<lambda>p. truthy (delivered p)) ps \<rparr>"
  by (induction ps arbitrary: self) (simp_all add: append_package_def)

lemma handle_coordinator_data_eq:
  "handle_coordinator_data data self =
     self\<lparr> attributes_enroute :=
             filter (\<lambda>p. \<not> truthy (delivered p))
               (if receiver self then data_receiver data else data_sender data),
           attributes_delivered :=
             filter (\<lambda>p. truthy (delivered p))
               (if receiver self then data_receiver data else data_sender data),
           state := Some (length (filter (\<lambda>p. \<not> truthy (delivered p))
               (if receiver self then data_receiver data else data_sender data))) \<rparr>"
  by (simp add: handle_coordinator_data_def fold_append_package Let_def)

lemma filter_bool_false:
  "\<forall>p\<in>set ps. \<exists>b. delivered p = JBool b \<Longrightarrow>
   filter (\<lambda>p. \<not> truthy (delivered p)) ps = filter (\<lambda>p. delivered p = JBool False) ps"
  by (rule filter_cong) auto

text \<open>
  Claim C6. After \<open>handle_coordinator_data\<close> the state of a sensor is the
  number of Packages of its list (the receiver list for the receiver sensor,
  the sender list for the sender sensor) whose \<open>delivered\<close> field is falsy;
  when every \<open>delivered\<close> field of the list is a boolean, that is the number
  of Packages with \<open>delivered = False\<close>.
\<close>

theorem sensor_state_counts_enroute:
  "state (handle_coordinator_data data self) =
     Some (length (filter (\<lambda>p. \<not> truthy (delivered p))
       (if receiver self then data_receiver data else data_sender data))) \<and>
   ((\<forall>p\<in>set (if receiver self then data_receiver data else data_sender data).
       \<exists>b. delivered p = JBool b) \<longrightarrow>
    state (handle_coordinator_data data self) =
     Some (length (filter (\<lambda>p. delivered p = JBool False)
       (if receiver self then data_receiver data else data_sender data))))"
  by (simp add: handle_coordinator_data_eq filter_bool_false)

theorem sensor_state_counts_enroute_witness:
  "receiver ex_sensor \<and>
   delivered ex_pkg_enroute = JBool False \<and> delivered ex_pkg_delivered = JBool True \<and>
   state (handle_coordinator_data ex_data ex_sensor) = Some 2 \<and>
   length (filter (\<lambda>p. delivered p = JBool False) (data_receiver ex_data)) = 2"
proof -
  have r: "receiver ex_sensor" by (simp add: ex_sensor_def)
  have b: "\<forall>p\<in>set (if receiver ex_sensor then data_receiver ex_data else data_sender ex_data).
             \<exists>b. delivered p = JBool b"
    by (auto simp: ex_sensor_def ex_data_def ex_pkg_enroute_def ex_pkg_delivered_def Package_def)
  have n: "length (filter (\<lambda>p. delivered p = JBool False) (data_receiver ex_data)) = 2"
    by (simp add: ex_data_def ex_pkg_enroute_def ex_pkg_delivered_def Package_def)
  from sensor_state_counts_enroute [of ex_data ex_sensor, THEN conjunct2, THEN mp, OF b] r n
  have "state (handle_coordinator_data ex_data ex_sensor) = Some 2" by simp
  with r n show ?thesis
    by (simp add: ex_pkg_enroute_def ex_pkg_delivered_def Package_def)
qed

lemma handle_twice:
  "handle_coordinator_data data (handle_coordinator_data data self) = handle_coordinator_data data self"
  by (simp add: handle_coordinator_data_eq)

lemma handle_funpow:
  "(handle_coordinator_data data ^^ Suc n) self = handle_coordinator_data data self"
  by (induction n) (simp_all add: handle_twice)

text \<open>
  Claim C10. Calling \<open>handle_coordinator_data\<close> any positive number of times
  on the same coordinator data leaves the sensor as one call does, and the
  attribute lists after a call hold exactly the Packages of the sensor's list,
  split by the \<open>delivered\<close> field, whatever the lists held before: nothing
  accumulates.
\<close>

theorem handle_coordinator_data_idempotent:
  "(handle_coordinator_data data ^^ Suc n) self = handle_coordinator_data data self \<and>
   attributes_enroute (handle_coordinator_data data self) =
     filter (\<lambda>p. \<not> truthy (delivered p))
       (if receiver self then data_receiver data else data_sender data) \<and>
   attributes_delivered (handle_coordinator_data data self) =
     filter (\<lambda>p. truthy (delivered p))
       (if receiver self then data_receiver data else data_sender data)"
  by (simp only: handle_funpow) (simp add: handle_coordinator_data_eq)

theorem handle_coordinator_data_idempotent_witness:
  "(handle_coordinator_data ex_data ^^ 3) ex_sensor = handle_coordinator_data ex_data ex_sensor \<and>
   attributes_enroute (handle_coordinator_data ex_data ex_sensor) = [ex_pkg_enroute, ex_pkg_enroute] \<and>
   attributes_delivered (handle_coordinator_data ex_data ex_sensor) = [ex_pkg_delivered]"
  using handle_coordinator_data_idempotent [where data = ex_data and n = 2 and self = ex_sensor]
  by (simp add: numeral_3_eq_3 ex_sensor_def ex_data_def ex_pkg_enroute_def ex_pkg_delivered_def Package_def)

section \<open>Request failures in a polling cycle\<close>

lemma map_filter_eq_Nil: "List.map_filter f xs = [] \<longleftrightarrow> (\<forall>x\<in>set xs. f x = None)"
  by (induction xs) (auto simp: List.map_filter_simps split: option.splits)

lemma map_filter_hd_mem: "List.map_filter f xs = y # ys \<Longrightarrow> \<exists>x\<in>set xs. f x = Some y"
proof (induction xs)
  case Nil
  then show ?case by (simp add: List.map_filter_simps)
next
  case (Cons a xs)
  then show ?case by (cases "f a") (auto simp: List.map_filter_simps)
qed

lemma failure_at_Some: "failure_at outs i = Some e \<Longrightarrow> Inl e \<in> set outs"
  by (auto simp: failure_at_def split: if_splits sum.splits intro: nth_mem dest!: sym [of "outs ! i"])

lemma gather_Inl_mem: "gather order outs = Inl e \<Longrightarrow> Inl e \<in> set outs"
  by (auto simp: gather_def split: list.splits dest!: map_filter_hd_mem failure_at_Some)

lemma gather_raises:
  assumes "Inl e \<in> set outs"
  shows "\<exists>e'. gather order outs = Inl e'"
proof -
  from assms obtain i where i: "i < length outs" "outs ! i = Inl e"
    by (auto simp: in_set_conv_nth)
  then have "failure_at outs i = Some e" by (simp add: failure_at_def)
  moreover from i have "i \<in> set (order @ [0..<length outs])" by simp
  ultimately have "List.map_filter (failure_at outs) (order @ [0..<length outs]) \<noteq> []"
    unfolding map_filter_eq_Nil by (metis option.distinct(1))
  then show ?thesis by (auto simp: gather_def split: list.splits)
qed

lemma transform_never_request_exception:
  "fst (transform_shipment tt shipment) \<noteq> Inl RequestException"
  by (cases shipment)
     (auto simp: transform_shipment_def except_request_def Let_def
           split: sum.splits if_splits)

lemma transform_all_never_request_exception:
  "Inl RequestException \<notin> set (transform_all tt batch)"
proof
  assume "Inl RequestException \<in> set (transform_all tt batch)"
  then obtain shipment where "fst (transform_shipment tt shipment) = Inl RequestException"
    by (auto simp: transform_all_def)
  with transform_never_request_exception [of tt shipment] show False by simp
qed

lemma transform_request_failure:
  assumes "k \<in> set (snd (transform_shipment tt shipment))" and "tt k = Inl RequestException"
  shows "fst (transform_shipment tt shipment) = Inl UpdateFailed"
  using assms
  by (cases shipment)
     (auto simp: transform_shipment_def except_request_def bindE_def
           split: sum.splits if_splits)

lemma request_fails_in_outcome:
  assumes "request_fails_in tt batch"
  shows "Inl UpdateFailed \<in> set (transform_all tt batch)"
proof -
  from assms obtain shipment k where
    "shipment \<in> set batch" "k \<in> set (snd (transform_shipment tt shipment))"
    "tt k = Inl RequestException"
    by (auto simp: request_fails_in_def list_ex_iff)
  then show ?thesis
    using transform_request_failure [where tt = tt and shipment = shipment and k = k]
    by (force simp: transform_all_def)
qed

lemma fails_only_withD: "fails_only_with x outs \<Longrightarrow> Inl e \<in> set outs \<Longrightarrow> e = x"
  by (auto simp: fails_only_with_def list_all_iff split: sum.splits)

lemma update_receiver_failure:
  assumes "shipment_list shipments ''receiverShipments'' = Inr rs"
    and "gather order_r (transform_all tt rs) = Inl e"
  shows "async_update_data (Inr ()) (Inr shipments) tt order_r order_s = Inl e"
proof -
  from assms(2) have "Inl e \<in> set (transform_all tt rs)" by (rule gather_Inl_mem)
  with transform_all_never_request_exception [of tt rs] have "e \<noteq> RequestException" by auto
  with assms show ?thesis
    by (simp add: async_update_data_def bindE_def except_request_def)
qed

lemma update_sender_failure:
  assumes "shipment_list shipments ''receiverShipments'' = Inr rs"
    and "gather order_r (transform_all tt rs) = Inr rp"
    and "shipment_list shipments ''senderShipments'' = Inr ss"
    and "gather order_s (transform_all tt ss) = Inl e"
  shows "async_update_data (Inr ()) (Inr shipments) tt order_r order_s = Inl e"
proof -
  from assms(4) have "Inl e \<in> set (transform_all tt ss)" by (rule gather_Inl_mem)
  with transform_all_never_request_exception [of tt ss] have "e \<noteq> RequestException" by auto
  with assms show ?thesis
    by (simp add: async_update_data_def bindE_def except_request_def)
qed

lemma batch_failure:
  assumes "request_fails_in tt batch"
  shows "Inl UpdateFailed \<in> set (transform_all tt batch) \<and>
         (\<exists>e. gather order (transform_all tt batch) = Inl e \<and>
              Inl e \<in> set (transform_all tt batch) \<and>
              (fails_only_with UpdateFailed (transform_all tt batch) \<longrightarrow> e = UpdateFailed))"
proof -
  from assms have u: "Inl UpdateFailed \<in> set (transform_all tt batch)"
    by (rule request_fails_in_outcome)
  from gather_raises [OF u] obtain e where e: "gather order (transform_all tt batch) = Inl e" ..
  then have m: "Inl e \<in> set (transform_all tt batch)" by (rule gather_Inl_mem)
  from u e m show ?thesis by (auto dest: fails_only_withD)
qed

text \<open>
  Claim C7, as stated, fails: a \<open>RequestException\<close> during a detail fetch does
  not always make the update raise \<open>UpdateFailed\<close>. Here the receiver batch
  holds two non-delivered shipments; the fetch for the second raises
  \<open>RequestException\<close>, while the first has no \<open>'barcode'\<close> and its task fails
  with \<open>KeyError\<close> at \<open>shipment['barcode']\<close>. When the first task finishes
  first, \<open>asyncio.gather\<close> hands its \<open>KeyError\<close> to \<open>_async_update_data\<close>,
  whose \<open>except\<close> clause lets it pass.
\<close>

theorem request_exception_masked_by_other_failure:
  "shipment_list (ex_shipments [JObj ex_no_barcode, JObj ex_enroute] []) ''receiverShipments'' =
     Inr [JObj ex_no_barcode, JObj ex_enroute] \<and>
   request_fails_in tt_mixed [JObj ex_no_barcode, JObj ex_enroute] \<and>
   async_update_data (Inr ()) (Inr (ex_shipments [JObj ex_no_barcode, JObj ex_enroute] []))
       tt_mixed [0, 1] [] = Inl KeyError"
  by code_simp

text \<open>
  Claim C7, amended. When authentication has succeeded: if the shipment-list
  fetch raises \<open>RequestException\<close>, the update raises \<open>UpdateFailed\<close>. If a
  \<open>RequestException\<close> occurs during the detail fetch of a shipment of the
  receiver batch, or of the sender batch once the receiver batch has been
  gathered, then that shipment's task fails with \<open>UpdateFailed\<close> and the
  update returns no data: for every finishing order it raises the exception of
  one of the failing tasks of that batch, which is \<open>UpdateFailed\<close> whenever
  no task of the batch fails with another exception.
\<close>

theorem request_exception_fails_cycle:
  "async_update_data (Inr ()) (Inl RequestException) tt order_r order_s = Inl UpdateFailed \<and>
   (shipment_list shipments ''receiverShipments'' = Inr rs \<and> request_fails_in tt rs \<longrightarrow>
      Inl UpdateFailed \<in> set (transform_all tt rs) \<and>
      (\<exists>e. async_update_data (Inr ()) (Inr shipments) tt order_r order_s = Inl e \<and>
           Inl e \<in> set (transform_all tt rs) \<and>
           (fails_only_with UpdateFailed (transform_all tt rs) \<longrightarrow> e = UpdateFailed))) \<and>
   (shipment_list shipments ''receiverShipments'' = Inr rs \<and>
    gather order_r (transform_all tt rs) = Inr rp \<and>
    shipment_list shipments ''senderShipments'' = Inr ss \<and> request_fails_in tt ss \<longrightarrow>
      Inl UpdateFailed \<in> set (transform_all tt ss) \<and>
      (\<exists>e. async_update_data (Inr ()) (Inr shipments) tt order_r order_s = Inl e \<and>
           Inl e \<in> set (transform_all tt ss) \<and>
           (fails_only_with UpdateFailed (transform_all tt ss) \<longrightarrow> e = UpdateFailed)))"
proof (intro conjI impI)
  show "async_update_data (Inr ()) (Inl RequestException) tt order_r order_s = Inl UpdateFailed"
    by (simp add: async_update_data_def bindE_def except_request_def)
next
  assume a: "shipment_list shipments ''receiverShipments'' = Inr rs \<and> request_fails_in tt rs"
  then show "Inl UpdateFailed \<in> set (transform_all tt rs)"
    using batch_failure [of tt rs order_r] by simp
  from a batch_failure [of tt rs order_r] obtain e where
    e: "gather order_r (transform_all tt rs) = Inl e" "Inl e \<in> set (transform_all tt rs)"
       "fails_only_with UpdateFailed (transform_all tt rs) \<longrightarrow> e = UpdateFailed"
    by blast
  with a update_receiver_failure [of shipments rs order_r tt e order_s]
  show "\<exists>e. async_update_data (Inr ()) (Inr shipments) tt order_r order_s = Inl e \<and>
           Inl e \<in> set (transform_all tt rs) \<and>
           (fails_only_with UpdateFailed (transform_all tt rs) \<longrightarrow> e = UpdateFailed)"
    by blast
next
  assume a: "shipment_list shipments ''receiverShipments'' = Inr rs \<and>
    gather order_r (transform_all tt rs) = Inr rp \<and>
    shipment_list shipments ''senderShipments'' = Inr ss \<and> request_fails_in tt ss"
  then show "Inl UpdateFailed \<in> set (transform_all tt ss)"
    using batch_failure [of tt ss order_s] by simp
  from a batch_failure [of tt ss order_s] obtain e where
    e: "gather order_s (transform_all tt ss) = Inl e" "Inl e \<in> set (transform_all tt ss)"
       "fails_only_with UpdateFailed (transform_all tt ss) \<longrightarrow> e = UpdateFailed"
    by blast
  with a update_sender_failure [of shipments rs order_r tt rp ss order_s e]
  show "\<exists>e. async_update_data (Inr ()) (Inr shipments) tt order_r order_s = Inl e \<and>
           Inl e \<in> set (transform_all tt ss) \<and>
           (fails_only_with UpdateFailed (transform_all tt ss) \<longrightarrow> e = UpdateFailed)"
    by blast
qed

theorem request_exception_fails_cycle_witness:
  "async_update_data (Inr ()) (Inl RequestException) tt_request_exception [] [] =
     Inl UpdateFailed \<and>
   request_fails_in tt_request_exception [JObj ex_delivered, JObj ex_enroute] \<and>
   async_update_data (Inr ()) (Inr (ex_shipments [JObj ex_delivered, JObj ex_enroute] []))
       tt_request_exception [] [] = Inl UpdateFailed \<and>
   gather [] (transform_all tt_request_exception [JObj ex_delivered]) = Inr [ex_pkg_delivered] \<and>
   request_fails_in tt_request_exception [JObj ex_enroute] \<and>
   async_update_data (Inr ()) (Inr (ex_shipments [JObj ex_delivered] [JObj ex_enroute]))
       tt_request_exception [] [] = Inl UpdateFailed"
proof -
  let ?rs = "[JObj ex_delivered, JObj ex_enroute]"
  have l1: "shipment_list (ex_shipments ?rs []) ''receiverShipments'' = Inr ?rs"
    by code_simp
  have f1: "request_fails_in tt_request_exception ?rs"
    by code_simp
  have o1: "fails_only_with UpdateFailed (transform_all tt_request_exception ?rs)"
    by code_simp
  have l2: "shipment_list (ex_shipments [JObj ex_delivered] [JObj ex_enroute])
              ''receiverShipments'' = Inr [JObj ex_delivered]"
    by code_simp
  have g2: "gather [] (transform_all tt_request_exception [JObj ex_delivered]) =
              Inr [ex_pkg_delivered]"
    by code_simp
  have l3: "shipment_list (ex_shipments [JObj ex_delivered] [JObj ex_enroute])
              ''senderShipments'' = Inr [JObj ex_enroute]"
    by code_simp
  have f3: "request_fails_in tt_request_exception [JObj ex_enroute]"
    by code_simp
  have o3: "fails_only_with UpdateFailed (transform_all tt_request_exception [JObj ex_enroute])"
    by code_simp
  note a = request_exception_fails_cycle
             [where tt = tt_request_exception and order_r = "[]" and order_s = "[]"
                and shipments = "ex_shipments ?rs []" and rs = ?rs, THEN conjunct1]
  note b = request_exception_fails_cycle
             [where tt = tt_request_exception and order_r = "[]" and order_s = "[]"
                and shipments = "ex_shipments ?rs []" and rs = ?rs,
              THEN conjunct2, THEN conjunct1, THEN mp, OF conjI [OF l1 f1], THEN conjunct2]
  note c = request_exception_fails_cycle
             [where tt = tt_request_exception and order_r = "[]" and order_s = "[]"
                and shipments = "ex_shipments [JObj ex_delivered] [JObj ex_enroute]"
                and rs = "[JObj ex_delivered]" and rp = "[ex_pkg_delivered]"
                and ss = "[JObj ex_enroute]",
              THEN conjunct2, THEN conjunct2, THEN mp,
              OF conjI [OF l2 conjI [OF g2 conjI [OF l3 f3]]], THEN conjunct2]
  from b o1 have r1:
    "async_update_data (Inr ()) (Inr (ex_shipments ?rs [])) tt_request_exception [] [] =
       Inl UpdateFailed" by auto
  from c o3 have r2:
    "async_update_data (Inr ()) (Inr (ex_shipments [JObj ex_delivered] [JObj ex_enroute]))
       tt_request_exception [] [] = Inl UpdateFailed" by auto
  from a f1 r1 g2 f3 r2 show ?thesis by simp
qed

section \<open>The update interval\<close>

lemma validator_num:
  "update_interval_validator ios (JNum n) = (if n < 30 then Inl Invalid else Inr n)"
  by (simp add: update_interval_validator_def All2_def bindE_def Range_min_def)

lemma validator_accepts_ge:
  "update_interval_validator ios v = Inr m \<Longrightarrow> 30 \<le> m"
  by (cases v)
     (auto simp: update_interval_validator_def All2_def bindE_def Range_min_def
           split: option.splits if_splits)

lemma options_schema_accepts:
  "options_schema ios dflt ui = Inr out \<Longrightarrow> \<exists>m\<ge>30. out = JObj [(''update_interval'', JNum m)]"
  by (cases ui)
     (auto simp: options_schema_def bindE_def split: if_splits sum.splits dest: validator_accepts_ge)

lemma submit_accepts:
  "submit_options ios opts ui = Inr (CreateEntry data) \<Longrightarrow>
   \<exists>m\<ge>30. data = JObj [(''update_interval'', JNum m)]"
  by (auto simp: submit_options_def async_step_init_def bindE_def
           split: sum.splits dest: options_schema_accepts)

lemma submit_num:
  "submit_options ios opts (JObj [(''update_interval'', JNum n)]) =
     (if 30 \<le> n then Inr (CreateEntry (JObj [(''update_interval'', JNum n)])) else Inl Invalid)"
  by (simp add: submit_options_def async_step_init_def options_schema_def bindE_def
        validator_num dict_get_def)

text \<open>
  Claim C9. The update-interval validator accepts an integer exactly when it
  is at least 30 and rejects every smaller one; a submitted
  \<open>{'update_interval': n}\<close> becomes the stored option exactly when \<open>n\<close> is at
  least 30; and whatever is submitted, the option stored by a submission is an
  integer of at least 30.
\<close>

theorem update_interval_below_30_rejected:
  "(update_interval_validator ios (JNum n) = Inr n \<longleftrightarrow> 30 \<le> n) \<and>
   (n < 30 \<longrightarrow> update_interval_validator ios (JNum n) = Inl Invalid) \<and>
   submit_options ios opts (JObj [(''update_interval'', JNum n)]) =
     (if 30 \<le> n then Inr (CreateEntry (JObj [(''update_interval'', JNum n)])) else Inl Invalid) \<and>
   (submit_options ios opts ui = Inr (CreateEntry data) \<longrightarrow>
      (\<exists>m\<ge>30. data = JObj [(''update_interval'', JNum m)]))"
  using submit_accepts [of ios opts ui data]
  by (simp only: submit_num validator_num) auto

theorem update_interval_below_30_rejected_witness:
  "update_interval_validator ex_int_of_str (JNum 29) = Inl Invalid \<and>
   update_interval_validator ex_int_of_str (JNum 30) = Inr 30 \<and>
   submit_options ex_int_of_str [] (JObj [(''update_interval'', JNum 29)]) = Inl Invalid \<and>
   submit_options ex_int_of_str [] (JObj [(''update_interval'', JNum 30)]) =
     Inr (CreateEntry (JObj [(''update_interval'', JNum 30)]))"
  using update_interval_below_30_rejected [where ios = ex_int_of_str and n = 29 and opts = "[]"]
        update_interval_below_30_rejected [where ios = ex_int_of_str and n = 30 and opts = "[]"]
  by simp

text \<open>
  Claim C8. The options flow accepts and stores an \<open>update_interval\<close> (default
  90, at least 30), but the coordinator's constructor passes the fixed
  \<open>timedelta(seconds=90)\<close> to the host and never reads the option. The theorem
  evaluates the code for a stored option of 30 seconds: the submission is
  accepted and stored, and the coordinator's refresh interval is 90 seconds.
\<close>

theorem coordinator_interval_ignores_option:
  "submit_options ex_int_of_str [] (JObj [(''update_interval'', JNum 30)]) =
     Inr (CreateEntry (JObj [(''update_interval'', JNum 30)])) \<and>
   update_interval (PostNLCoordinator_init [(''update_interval'', JNum 30)]) = 90"
  by (simp add: submit_options_def async_step_init_def options_schema_def bindE_def
        update_interval_validator_def All2_def Range_min_def dict_get_def PostNLCoordinator_init_def)

end
